theory Spec2Isabelle
  imports Main "HOL-Library.Sublist" "HOL-Library.Word"
begin

section \<open>Strings and patterns\<close>

text \<open>
  A JavaScript string is modelled by the bytes of its UTF-8 encoding (\<open>string\<close> is
  \<open>char list\<close>, one \<open>char\<close> per byte). Substring search, prefix tests and the ASCII
  character classes of the source's regular expressions read the same on the bytes as on
  the UTF-16 code units the engine compares.
\<close>

text \<open>\<open>s.includes(t)\<close>.\<close>

fun str_includes :: "string \<Rightarrow> string \<Rightarrow> bool" where
  "str_includes [] t = (t = [])"
| "str_includes (c # cs) t = (prefix t (c # cs) \<or> str_includes cs t)"

text \<open>\<open>s.replace(pat, rep)\<close> with a string pattern: only the first occurrence is replaced.\<close>

fun replace_first :: "string \<Rightarrow> string \<Rightarrow> string \<Rightarrow> string" where
  "replace_first pat rep [] = (if pat = [] then rep else [])"
| "replace_first pat rep (c # cs) =
     (if prefix pat (c # cs) then rep @ drop (length pat) (c # cs)
      else c # replace_first pat rep cs)"

text \<open>The class \<open>\d\<close> and the class \<open>[A-Za-z0-9_-]\<close>.\<close>

definition is_digit :: "char \<Rightarrow> bool" where
  "is_digit c = (48 \<le> (of_char c :: nat) \<and> (of_char c :: nat) \<le> 57)"

definition is_token_char :: "char \<Rightarrow> bool" where
  "is_token_char c =
     ((65 \<le> (of_char c :: nat) \<and> (of_char c :: nat) \<le> 90)
      \<or> (97 \<le> (of_char c :: nat) \<and> (of_char c :: nat) \<le> 122)
      \<or> is_digit c \<or> c = CHR ''_'' \<or> c = CHR ''-'')"

text \<open>
  \<open>s.match(/LIT(CLS+)/)\<close> for a literal \<open>LIT\<close> and a character class \<open>CLS\<close>: the
  leftmost position where the literal stands and is followed by at least one character
  of the class; the capture group is the longest run of class characters there (\<open>+\<close> is
  greedy). \<open>None\<close> is the \<open>null\<close> of a failed match.
\<close>

fun first_capture :: "string \<Rightarrow> (char \<Rightarrow> bool) \<Rightarrow> string \<Rightarrow> string option" where
  "first_capture lit cls [] = None"
| "first_capture lit cls (c # cs) =
     (if prefix lit (c # cs) \<and> takeWhile cls (drop (length lit) (c # cs)) \<noteq> []
      then Some (takeWhile cls (drop (length lit) (c # cs)))
      else first_capture lit cls cs)"

text \<open>
  The lazy group \<open>(.*?);\<close>: the shortest run of characters up to the next semicolon. The
  dot matches no line terminator: line feed, carriage return, U+2028 and U+2029 (in
  UTF-8 the bytes E2 80 A8 and E2 80 A9), so the run fails when one of them comes before
  the semicolon.
\<close>

fun lazy_until_semicolon :: "string \<Rightarrow> string option" where
  "lazy_until_semicolon [] = None"
| "lazy_until_semicolon (c # cs) =
     (if c = CHR '';'' then Some []
      else if c = CHR 0x0A \<or> c = CHR 0x0D then None
      else if c = CHR 0xE2 \<and> (prefix [CHR 0x80, CHR 0xA8] cs \<or> prefix [CHR 0x80, CHR 0xA9] cs)
      then None
      else map_option ((#) c) (lazy_until_semicolon cs))"

text \<open>\<open>pageContent.match(/window\.yunData = (.*?);/)\<close>: the capture of the leftmost match.\<close>

fun match_yunData :: "string \<Rightarrow> string option" where
  "match_yunData [] = None"
| "match_yunData (c # cs) =
     (if prefix ''window.yunData = '' (c # cs)
      then (case lazy_until_semicolon (drop (length ''window.yunData = '') (c # cs)) of
              Some cap \<Rightarrow> Some cap
            | None \<Rightarrow> match_yunData cs)
      else match_yunData cs)"

text \<open>Decimal rendering of a number that is an integer below \<open>10^21\<close>.\<close>

fun show_nat :: "nat \<Rightarrow> string" where
  "show_nat n =
     (if n < 10 then [''0123456789'' ! n]
      else show_nat (n div 10) @ [''0123456789'' ! (n mod 10)])"

declare show_nat.simps [simp del]

definition show_int :: "int \<Rightarrow> string" where
  "show_int i = (if i < 0 then CHR ''-'' # show_nat (nat (- i)) else show_nat (nat i))"

fun intercalate :: "string \<Rightarrow> string list \<Rightarrow> string" where
  "intercalate sep [] = []"
| "intercalate sep [x] = x"
| "intercalate sep (x # y # ys) = x @ sep @ intercalate sep (y # ys)"

section \<open>Values\<close>

text \<open>
  The values \<open>JSON.parse\<close> produces. A number is modelled by an integer: the embedding
  covers the integers a double holds exactly (below \<open>2^53\<close> in magnitude); fractions are
  outside it. \<open>undefined\<close>, the value of a missing property, is the \<open>None\<close> of
  \<open>json option\<close>.
\<close>

datatype json =
    JNull
  | JBool bool
  | JNum int
  | JStr string
  | JArr "json list"
  | JObj "(string \<times> json) list"

text \<open>Truthiness, and \<open>a || b\<close> for a property read \<open>a\<close>.\<close>

fun truthy :: "json \<Rightarrow> bool" where
  "truthy JNull = False"
| "truthy (JBool b) = b"
| "truthy (JNum n) = (n \<noteq> 0)"
| "truthy (JStr s) = (s \<noteq> [])"
| "truthy (JArr xs) = True"
| "truthy (JObj kvs) = True"

definition or_else :: "json option \<Rightarrow> json \<Rightarrow> json" where
  "or_else a b = (case a of None \<Rightarrow> b | Some v \<Rightarrow> if truthy v then v else b)"

text \<open>
  Reading a named property of a value that is neither \<open>null\<close> nor \<open>undefined\<close>. The
  program reads \<open>file_list\<close>, \<open>server\<close>, \<open>sign\<close>, \<open>timestamp\<close>, \<open>server_filename\<close>,
  \<open>size\<close>, \<open>fs_id\<close> and \<open>category\<close> this way; none of them is a built-in property of
  an array, a string, a number or a boolean, so only an object can hold one.
\<close>

fun field :: "json \<Rightarrow> string \<Rightarrow> json option" where
  "field (JObj kvs) k = map_of kvs k"
| "field v k = None"

text \<open>
  \<open>fileList.length === 0\<close> and \<open>fileList[0]\<close>, for a truthy \<open>fileList\<close>. An array and a
  string have a built-in length; an object has the property if it holds the key; a
  number or boolean has none (\<open>undefined === 0\<close> is false). Of the first element of a
  string only its being a string is ever observed.
\<close>

fun length_is_zero :: "json \<Rightarrow> bool" where
  "length_is_zero (JArr xs) = (xs = [])"
| "length_is_zero (JStr s) = (s = [])"
| "length_is_zero (JObj kvs) = (map_of kvs ''length'' = Some (JNum 0))"
| "length_is_zero v = False"

fun index0 :: "json \<Rightarrow> json option" where
  "index0 (JArr xs) = (case xs of [] \<Rightarrow> None | x # _ \<Rightarrow> Some x)"
| "index0 (JStr s) = (case s of [] \<Rightarrow> None | _ # _ \<Rightarrow> Some (JStr (take 1 s)))"
| "index0 (JObj kvs) = map_of kvs ''0''"
| "index0 v = None"

text \<open>
  A call that throws, or returns a value; \<open>and_then\<close> runs the next step on a returned
  value and passes a throw on. The thrown error's text is kept where the program reads
  it.
\<close>

datatype 'a outcome = Throws | Returns 'a

datatype js_error = JsError (message: string)

definition and_then :: "'a outcome \<Rightarrow> ('a \<Rightarrow> 'b outcome) \<Rightarrow> 'b outcome" where
  "and_then x f = (case x of Throws \<Rightarrow> Throws | Returns v \<Rightarrow> f v)"

fun all_returned :: "'a outcome list \<Rightarrow> 'a list outcome" where
  "all_returned [] = Returns []"
| "all_returned (x # xs) =
     and_then x (\<lambda>v. and_then (all_returned xs) (\<lambda>vs. Returns (v # vs)))"

text \<open>
  String conversion, as a template literal applies it. A decoded object inherits
  \<open>toString\<close>, which gives \<open>[object Object]\<close>, unless it holds a key \<open>toString\<close> of its
  own: a decoded value is never callable, the inherited \<open>valueOf\<close> returns the object
  itself, and the conversion throws a TypeError. An array joins the strings of its
  elements with commas, \<open>null\<close> elements rendered empty, and throws when an element
  does.
\<close>

fun js_string :: "json \<Rightarrow> string outcome" where
  "js_string JNull = Returns ''null''"
| "js_string (JBool b) = Returns (if b then ''true'' else ''false'')"
| "js_string (JNum n) = Returns (show_int n)"
| "js_string (JStr s) = Returns s"
| "js_string (JArr xs) =
     and_then (all_returned (map (\<lambda>x. if x = JNull then Returns [] else js_string x) xs))
       (\<lambda>parts. Returns (intercalate '','' parts))"
| "js_string (JObj kvs) =
     (if map_of kvs ''toString'' = None then Returns ''[object Object]'' else Throws)"

definition interp :: "json option \<Rightarrow> string outcome" where
  "interp v = (case v of None \<Rightarrow> Returns ''undefined'' | Some x \<Rightarrow> js_string x)"

text \<open>The values that have a string, as \<open>js_string_throws_iff\<close> shows.\<close>

fun has_string :: "json \<Rightarrow> bool" where
  "has_string (JObj kvs) = (map_of kvs ''toString'' = None)"
| "has_string (JArr xs) = list_all has_string xs"
| "has_string v = True"

section \<open>The platform\<close>

text \<open>
  What the program takes from the engine and is no code of the repository: the URL
  parser (\<open>new URL(s).hostname\<close>, \<open>None\<close> when the constructor throws),
  \<open>JSON.parse\<close> (\<open>None\<close> when it throws) and the conversion of a string to a number
  (\<open>None\<close> for \<open>NaN\<close>). The program is a function of them.
\<close>

record platform =
  url_hostname :: "string \<Rightarrow> string option"
  json_parse :: "string \<Rightarrow> json option"
  string_to_number :: "string \<Rightarrow> int option"

text \<open>
  \<open>Math.random()\<close> is a 53-bit fraction \<open>w / 2^53\<close> in \<open>[0, 1)\<close>. For an integer
  \<open>n\<close> below \<open>2^53\<close> the product \<open>Math.random() * n\<close> is the double nearest to
  \<open>w * n / 2^53\<close>: the numerator keeps its 53 leading bits, rounded to nearest with
  ties to the even side (\<open>round_at\<close> drops the low bits, \<open>round_to_53\<close> as many as leave 53). \<open>Math.floor\<close> of that double is
  \<open>rand_below w n\<close>. A random source gives the k-th draw of one call.
\<close>

fun bit_length :: "nat \<Rightarrow> nat" where
  "bit_length n = (if n = 0 then 0 else Suc (bit_length (n div 2)))"

declare bit_length.simps [simp del]

definition round_at :: "nat \<Rightarrow> nat \<Rightarrow> nat" where
  "round_at k a =
     (let q = a div 2 ^ k; r = a mod 2 ^ k
      in if 2 ^ k < 2 * r \<or> (2 * r = 2 ^ k \<and> odd q) then (q + 1) * 2 ^ k else q * 2 ^ k)"

definition round_to_53 :: "nat \<Rightarrow> nat" where
  "round_to_53 a = round_at (bit_length a - 53) a"

definition rand_below :: "53 word \<Rightarrow> nat \<Rightarrow> nat" where
  "rand_below w n = round_to_53 (unat w * n) div 2 ^ 53"

type_synonym random_source = "nat \<Rightarrow> 53 word"

section \<open>URL Normalizer\<close>

definition validDomains :: "string list" where
  "validDomains =
     [''terabox.com'', ''1024tera.com'', ''teraboxapp.com'', ''4funbox.com'', ''1024terabox.com'']"

definition normalizeTeraBoxUrl :: "platform \<Rightarrow> string \<Rightarrow> string option" where
  "normalizeTeraBoxUrl P url =
     (if url = [] then None
      else case url_hostname P url of
        None \<Rightarrow> None
      | Some hostname \<Rightarrow>
          (let domain = replace_first ''www.'' [] hostname in
           if \<not> list_ex (\<lambda>validDomain. str_includes domain validDomain) validDomains then None
           else if str_includes url ''/s/'' then Some url
           else Some url))"

section \<open>Identifier Extractor\<close>

definition extractFileId :: "string \<Rightarrow> string \<Rightarrow> string option" where
  \<open>extractFileId url pageContent =
     (case (if str_includes url ''/s/'' then first_capture ''/s/'' is_token_char url else None) of
        Some token \<Rightarrow> Some token
      | None \<Rightarrow>
          (case first_capture ''"fs_id":'' is_digit pageContent of
             Some fid \<Rightarrow> Some fid
           | None \<Rightarrow> first_capture ''"shareid":'' is_digit pageContent))\<close>

section \<open>Size formatting\<close>

text \<open>
  \<open>ToNumber\<close> of a value; \<open>None\<close> is \<open>NaN\<close>. An array and an object convert through
  their string, and throw where that conversion throws; the string of an object is no
  number.
\<close>

fun to_number :: "platform \<Rightarrow> json \<Rightarrow> int option outcome" where
  "to_number P JNull = Returns (Some 0)"
| "to_number P (JBool b) = Returns (Some (if b then 1 else 0))"
| "to_number P (JNum n) = Returns (Some n)"
| "to_number P (JStr s) = Returns (string_to_number P s)"
| "to_number P (JArr xs) = and_then (js_string (JArr xs)) (\<lambda>s. Returns (string_to_number P s))"
| "to_number P (JObj kvs) = and_then (js_string (JObj kvs)) (\<lambda>s. Returns None)"

text \<open>\<open>Math.floor(Math.log(n) / Math.log(1024))\<close> for an integer \<open>n > 0\<close>, computed exactly.\<close>

fun log1024 :: "nat \<Rightarrow> nat" where
  "log1024 n = (if n < 1024 then 0 else Suc (log1024 (n div 1024)))"

declare log1024.simps [simp del]

text \<open>
  \<open>parseFloat(x.toFixed(2))\<close> rendered as a string, for \<open>x = n / d\<close>: \<open>toFixed\<close> rounds to
  the nearest hundredth, the larger one on a tie, and the number prints without trailing
  zeros.
\<close>

definition show_rounded :: "nat \<Rightarrow> nat \<Rightarrow> string" where
  "show_rounded n d =
     (let h = (200 * n + d) div (2 * d) in
      if h mod 100 = 0 then show_nat (h div 100)
      else if h mod 10 = 0 then show_nat (h div 100) @ ''.'' @ show_nat (h mod 100 div 10)
      else show_nat (h div 100) @ ''.'' @ show_nat (h mod 100 div 10) @ show_nat (h mod 10))"

definition sizes :: "string list" where
  "sizes = [''Bytes'', ''KB'', ''MB'', ''GB'', ''TB'']"

text \<open>
  \<open>formatSize(bytes)\<close>. Only the number zero takes the first return. A value whose
  number is \<open>NaN\<close>, zero or negative makes every later step \<open>NaN\<close> and the index no index
  of \<open>sizes\<close>; reading \<open>sizes\<close> outside its five entries gives \<open>undefined\<close>, which the
  concatenation prints. The conversion of \<open>bytes\<close> to a number throws where
  \<open>to_number\<close> does. The logarithm and the division are exact here. The engine divides
  two rounded logarithms instead, and the quotient can reach the next integer just below
  a power of 1024 (at \<open>1024^5 - 1\<close> it is 5 where the exact index is 4); away from those
  places, and for integers below \<open>2^53\<close>, the two agree.
\<close>

definition formatSize :: "platform \<Rightarrow> json \<Rightarrow> string outcome" where
  "formatSize P bytes =
     (if bytes = JNum 0 then Returns ''0 Bytes''
      else and_then (to_number P bytes) (\<lambda>number.
        case number of
          None \<Rightarrow> Returns ''NaN undefined''
        | Some n \<Rightarrow>
            if n \<le> 0 then Returns ''NaN undefined''
            else (let i = log1024 (nat n) in
                  Returns (show_rounded (nat n) (1024 ^ i) @ '' ''
                    @ (if i < length sizes then sizes ! i else ''undefined'')))))"

section \<open>Link Synthesizer\<close>

text \<open>
  Both functions read a property of \<open>fileInfo\<close> first, which throws when \<open>fileInfo\<close> is
  \<open>undefined\<close> or \<open>null\<close>, and both throw where a template literal converts a value
  that has no string. The parameter \<open>server\<close> is unused in the source too.
\<close>

definition createDirectLink ::
    "json option \<Rightarrow> json \<Rightarrow> json \<Rightarrow> json \<Rightarrow> random_source \<Rightarrow> string outcome" where
  "createDirectLink fileInfo server sign timestamp rnd =
     (case fileInfo of
        None \<Rightarrow> Throws
      | Some JNull \<Rightarrow> Throws
      | Some fi \<Rightarrow>
          and_then (interp (field fi ''fs_id'')) (\<lambda>fs_id.
          and_then (js_string timestamp) (\<lambda>dstime.
          and_then (js_string sign) (\<lambda>sign_text.
            Returns (''https://d.1024tera.com/file/'' @ fs_id
              @ ''?fid='' @ fs_id
              @ ''-'' @ show_nat (rand_below (rnd 0) 10000)
              @ ''-'' @ show_nat (rand_below (rnd 1) 10000000000)
              @ ''&dstime='' @ dstime
              @ ''&rt=sh&sign='' @ sign_text
              @ ''&expires=8h&chkv=0&chkbd=0&chkpc=&dp-logid=''
              @ show_nat (rand_below (rnd 2) 100000000000000)
              @ ''&dp-callid=0&r='' @ show_nat (rand_below (rnd 3) 1000000000)
              @ ''&sh=1&region=jp'')))))"

definition baseThumbUrl :: "json \<Rightarrow> string outcome" where
  "baseThumbUrl fi =
     and_then (interp (field fi ''fs_id'')) (\<lambda>fs_id.
       Returns (''https://data.1024tera.com/thumbnail/'' @ fs_id))"

definition randomParams :: "json \<Rightarrow> json \<Rightarrow> json \<Rightarrow> random_source \<Rightarrow> string outcome" where
  "randomParams fi sign timestamp rnd =
     and_then (interp (field fi ''fs_id'')) (\<lambda>fs_id.
     and_then (js_string timestamp) (\<lambda>time_text.
     and_then (js_string sign) (\<lambda>sign_text.
       Returns (''?fid='' @ fs_id
         @ ''-'' @ show_nat (rand_below (rnd 0) 10000)
         @ ''-'' @ show_nat (rand_below (rnd 1) 10000000000)
         @ ''&time='' @ time_text
         @ ''&rt=sh&sign='' @ sign_text
         @ ''&expires=8h&chkv=0&chkbd=0&chkpc=&dp-logid=''
         @ show_nat (rand_below (rnd 2) 100000000000000)
         @ ''&dp-callid=0''))))"

text \<open>The returned object literal, as its key/value pairs in source order; \<open>None\<close> is \<open>null\<close>.\<close>

definition generateThumbnailUrls ::
    "json option \<Rightarrow> json \<Rightarrow> json \<Rightarrow> json \<Rightarrow> random_source
      \<Rightarrow> (string \<times> string) list option outcome" where
  "generateThumbnailUrls fileInfo server sign timestamp rnd =
     (case fileInfo of
        None \<Rightarrow> Throws
      | Some JNull \<Rightarrow> Throws
      | Some fi \<Rightarrow>
          (let isVideo = (field fi ''category'' = Some (JNum 1));
               isImage = (field fi ''category'' = Some (JNum 3))
           in if \<not> isVideo \<and> \<not> isImage then Returns None
              else and_then (baseThumbUrl fi) (\<lambda>base.
                   and_then (randomParams fi sign timestamp rnd) (\<lambda>params.
                     Returns (Some
                       [(''140x90'', base @ params
                           @ ''&size=c140_u90&quality=100&vuk=-&ft='' @ (if isVideo then ''video'' else ''image'')),
                        (''360x270'', base @ params
                           @ ''&size=c360_u270&quality=100&vuk=-&ft='' @ (if isVideo then ''video'' else ''image'')),
                        (''60x60'', base @ params
                           @ ''&size=c60_u60&quality=100&vuk=-&ft='' @ (if isVideo then ''video'' else ''image'')),
                        (''850x580'', base @ params
                           @ ''&size=c850_u580&quality=100&vuk=-&ft='' @ (if isVideo then ''video'' else ''image''))])))))"

section \<open>Page Data Parser\<close>

record file_info =
  fi_title :: json
  fi_size :: string
  fi_directLink :: string
  fi_thumbnails :: "(string \<times> string) list option"

text \<open>
  \<open>extractFileInfoFromPage\<close>; \<open>None\<close> is its \<open>null\<close>. Inside its \<open>try\<close>, \<open>JSON.parse\<close>
  throws on a text that does not decode, \<open>yunData.file_list\<close> throws when the decoded
  value is \<open>null\<close>, the link synthesis throws when the first entry is \<open>undefined\<close> or
  \<open>null\<close> or a value in a template has no string, and \<open>formatSize\<close> throws when the
  size has no number; the \<open>catch\<close> returns \<open>null\<close> for each. The direct link is built
  first, then the returned object in the order of its fields: the size, then the
  thumbnails. The direct link takes the first four draws of the random source, the
  thumbnails the next three.
\<close>

definition extractFileInfoFromPage :: "platform \<Rightarrow> random_source \<Rightarrow> string \<Rightarrow> file_info option" where
  "extractFileInfoFromPage P rnd pageContent =
     (case match_yunData pageContent of
        None \<Rightarrow> None
      | Some cap \<Rightarrow>
          if cap = [] then None
          else (case json_parse P cap of
                  None \<Rightarrow> None
                | Some JNull \<Rightarrow> None
                | Some yunData \<Rightarrow>
                    (let fileList = or_else (field yunData ''file_list'') (JArr []) in
                     if length_is_zero fileList then None
                     else (let fileInfo = index0 fileList;
                               server = or_else (field yunData ''server'') (JStr []);
                               sign = or_else (field yunData ''sign'') (JStr []);
                               timestamp = or_else (field yunData ''timestamp'') (JStr [])
                           in case createDirectLink fileInfo server sign timestamp rnd of
                                Throws \<Rightarrow> None
                              | Returns directLink \<Rightarrow>
                                  (case fileInfo of
                                     None \<Rightarrow> None
                                   | Some fi \<Rightarrow>
                                       (case formatSize P (or_else (field fi ''size'') (JNum 0)) of
                                          Throws \<Rightarrow> None
                                        | Returns size_text \<Rightarrow>
                                            (case generateThumbnailUrls fileInfo server sign timestamp
                                                    (\<lambda>k. rnd (k + 4)) of
                                               Throws \<Rightarrow> None
                                             | Returns thumbs \<Rightarrow>
                                                 Some \<lparr> fi_title = or_else (field fi ''server_filename'') (JStr ''Unknown''),
                                                        fi_size = size_text,
                                                        fi_directLink = directLink,
                                                        fi_thumbnails = thumbs \<rparr>)))))))"

section \<open>Short-Link Generator and Response Formatter\<close>

definition generateShortLink :: "string \<Rightarrow> string \<Rightarrow> string" where
  "generateShortLink originalUrl fileId = ''https://1024terabox.com/s/'' @ fileId"

text \<open>
  The two shapes of the returned object: the status alone, or the status with the array
  of one info record and the short link. The marks are the UTF-8 bytes of U+274C and
  U+2705.
\<close>

definition cross_mark :: string where
  "cross_mark = [CHR 0xE2, CHR 0x9D, CHR 0x8C]"

definition check_mark :: string where
  "check_mark = [CHR 0xE2, CHR 0x9C, CHR 0x85]"

record extracted_info =
  info_title :: json
  info_size :: string
  info_directLink :: string
  info_thumbnails :: "(string \<times> string) list"

datatype extract_result =
    StatusOnly (status: string)
  | Extracted (status: string) (extracted: "extracted_info list") (shortLink: string)

definition formatResponse :: "file_info \<Rightarrow> string \<Rightarrow> extract_result" where
  "formatResponse fileInfo link =
     Extracted (check_mark @ '' Success'')
       [\<lparr> info_title = fi_title fileInfo,
          info_size = fi_size fileInfo,
          info_directLink = fi_directLink fileInfo,
          info_thumbnails = (case fi_thumbnails fileInfo of None \<Rightarrow> [] | Some t \<Rightarrow> t) \<rparr>]
       link"

section \<open>The pipeline\<close>

text \<open>
  The outbound request (\<open>axios.get\<close> with its fixed headers and timeout) is the
  function \<open>fetch\<close> of the normalized URL: it rejects with an error (\<open>Inl\<close>) or
  resolves to the page text. An asynchronous function is modelled by its settled
  promise: \<open>Inl\<close> rejected, \<open>Inr\<close> resolved. The source also hands the page text to
  \<open>cheerio.load\<close> and never reads the result; that call is left out.

  \<open>extractTeraBoxInfo_try\<close> is the body of the \<open>try\<close> block, \<open>extractTeraBoxInfo\<close> the
  function with its \<open>catch\<close>.
\<close>

type_synonym 'a promise = "js_error + 'a"

definition extractTeraBoxInfo_try ::
    "platform \<Rightarrow> random_source \<Rightarrow> (string \<Rightarrow> string promise) \<Rightarrow> string \<Rightarrow> extract_result promise" where
  "extractTeraBoxInfo_try P rnd fetch url =
     (case normalizeTeraBoxUrl P url of
        None \<Rightarrow> Inr (StatusOnly (cross_mark @ '' Error: Invalid TeraBox URL''))
      | Some normalizedUrl \<Rightarrow>
          (case fetch normalizedUrl of
             Inl e \<Rightarrow> Inl e
           | Inr pageText \<Rightarrow>
               (case extractFileId normalizedUrl pageText of
                  None \<Rightarrow> Inr (StatusOnly (cross_mark @ '' Error: Could not extract file ID''))
                | Some fileId \<Rightarrow>
                    (case extractFileInfoFromPage P rnd pageText of
                       None \<Rightarrow> Inr (StatusOnly (cross_mark @ '' Error: Could not extract file info''))
                     | Some fileInfo \<Rightarrow>
                         Inr (formatResponse fileInfo (generateShortLink normalizedUrl fileId))))))"

definition extractTeraBoxInfo ::
    "platform \<Rightarrow> random_source \<Rightarrow> (string \<Rightarrow> string promise) \<Rightarrow> string \<Rightarrow> extract_result promise" where
  "extractTeraBoxInfo P rnd fetch url =
     (case extractTeraBoxInfo_try P rnd fetch url of
        Inl e \<Rightarrow>
          Inr (StatusOnly (cross_mark @ '' Error: ''
                 @ (if message e = [] then ''Failed to extract information'' else message e)))
      | Inr r \<Rightarrow> Inr r)"

section \<open>HTTP endpoint\<close>

record request =
  req_method :: string
  query_url :: "string option"

record response =
  resp_code :: nat
  resp_allow :: "string list option"
  resp_body :: extract_result

text \<open>
  The handler after the CORS middleware, over the extraction it awaits. Its \<open>catch\<close>
  answers a rejected extraction.
\<close>

definition handler :: "(string \<Rightarrow> extract_result promise) \<Rightarrow> request \<Rightarrow> response" where
  "handler extract req =
     (if req_method req \<noteq> ''GET''
      then \<lparr> resp_code = 405, resp_allow = Some [''GET''],
             resp_body = StatusOnly (cross_mark @ '' Error: Method not allowed'') \<rparr>
      else case query_url req of
        None \<Rightarrow> \<lparr> resp_code = 400, resp_allow = None,
                   resp_body = StatusOnly (cross_mark @ '' Error: Missing URL parameter'') \<rparr>
      | Some url \<Rightarrow>
          if url = []
          then \<lparr> resp_code = 400, resp_allow = None,
                 resp_body = StatusOnly (cross_mark @ '' Error: Missing URL parameter'') \<rparr>
          else (case extract url of
                  Inr result \<Rightarrow>
                    \<lparr> resp_code = (if str_includes (status result) ''Success'' then 200 else 400),
                      resp_allow = None, resp_body = result \<rparr>
                | Inl e \<Rightarrow>
                    \<lparr> resp_code = 500, resp_allow = None,
                      resp_body = StatusOnly (cross_mark @ '' Error: ''
                        @ (if message e = [] then ''Internal server error'' else message e)) \<rparr>))"

definition api_extract ::
    "platform \<Rightarrow> random_source \<Rightarrow> (string \<Rightarrow> string promise) \<Rightarrow> request \<Rightarrow> response" where
  "api_extract P rnd fetch req = handler (extractTeraBoxInfo P rnd fetch) req"

section \<open>A reference platform\<close>

text \<open>
  Concrete functions for the three engine services, used where a statement is evaluated
  at an explicit input. Each covers a fragment of what the engine accepts and answers as
  the engine does there; outside its fragment it answers failure. The general theorems
  hold for every platform.
\<close>

text \<open>
  The URL parser on plain \<open>http://\<close> and \<open>https://\<close> URLs: a host of lower-case
  letters, digits and dots with no empty label, whose last label starts with a letter
  (so it is no IPv4 number), ended by \<open>/\<close>, \<open>?\<close>, \<open>#\<close> or the end of the string. The
  engine returns such a host unchanged.
\<close>

definition is_host_char :: "char \<Rightarrow> bool" where
  "is_host_char c = ((97 \<le> (of_char c :: nat) \<and> (of_char c :: nat) \<le> 122) \<or> is_digit c \<or> c = CHR ''.'')"

definition plain_hostname :: "string \<Rightarrow> string option" where
  "plain_hostname url =
     (case (if prefix ''https://'' url then Some (drop 8 url)
            else if prefix ''http://'' url then Some (drop 7 url) else None) of
        None \<Rightarrow> None
      | Some r \<Rightarrow>
          (let host = takeWhile (\<lambda>c. c \<noteq> CHR ''/'' \<and> c \<noteq> CHR ''?'' \<and> c \<noteq> CHR ''#'') r;
               last_label = rev (takeWhile (\<lambda>c. c \<noteq> CHR ''.'') (rev host))
           in if host \<noteq> [] \<and> list_all is_host_char host \<and> \<not> prefix ''.'' host
                 \<and> \<not> str_includes host ''..''
                 \<and> (case last_label of [] \<Rightarrow> False | c # _ \<Rightarrow> \<not> is_digit c)
              then Some host else None))"

text \<open>
  \<open>JSON.parse\<close> on texts whose numbers are integer literals and whose strings use no
  \<open>\u\<close> escape. A repeated key keeps its place and takes the later value. The fuel
  bounds the depth of calls; a text that decodes needs no more than its length.
\<close>

definition is_ws :: "char \<Rightarrow> bool" where
  "is_ws c = (c = CHR '' '' \<or> c = CHR 0x09 \<or> c = CHR 0x0A \<or> c = CHR 0x0D)"

definition unescape :: "char \<Rightarrow> char option" where
  "unescape e =
     (if e = CHR 0x22 \<or> e = CHR 0x5C \<or> e = CHR ''/'' then Some e
      else if e = CHR ''b'' then Some (CHR 0x08)
      else if e = CHR ''f'' then Some (CHR 0x0C)
      else if e = CHR ''n'' then Some (CHR 0x0A)
      else if e = CHR ''r'' then Some (CHR 0x0D)
      else if e = CHR ''t'' then Some (CHR 0x09)
      else None)"

fun parse_string_chars :: "string \<Rightarrow> (string \<times> string) option" where
  "parse_string_chars [] = None"
| "parse_string_chars [c] = (if c = CHR 0x22 then Some ([], []) else None)"
| "parse_string_chars (c # e # es) =
     (if c = CHR 0x22 then Some ([], e # es)
      else if c = CHR 0x5C
      then (case unescape e of
              None \<Rightarrow> None
            | Some u \<Rightarrow> map_option (\<lambda>(s, r). (u # s, r)) (parse_string_chars es))
      else if (of_char c :: nat) < 32 then None
      else map_option (\<lambda>(s, r). (c # s, r)) (parse_string_chars (e # es)))"

definition digits_value :: "string \<Rightarrow> int" where
  "digits_value ds = foldl (\<lambda>a c. 10 * a + (of_char c - 48)) 0 ds"

definition parse_int :: "string \<Rightarrow> (int \<times> string) option" where
  "parse_int s =
     (let neg = prefix ''-'' s;
          body = (if neg then drop 1 s else s);
          ds = takeWhile is_digit body;
          rest = dropWhile is_digit body
      in if ds = [] \<or> (prefix ''0'' ds \<and> length ds > 1) then None
         else if prefix ''.'' rest \<or> prefix ''e'' rest \<or> prefix ''E'' rest then None
         else Some (if neg then - digits_value ds else digits_value ds, rest))"

fun put :: "string \<Rightarrow> json \<Rightarrow> (string \<times> json) list \<Rightarrow> (string \<times> json) list" where
  "put k v [] = [(k, v)]"
| "put k v ((k', v') # kvs) = (if k = k' then (k, v) # kvs else (k', v') # put k v kvs)"

fun parse_value :: "nat \<Rightarrow> string \<Rightarrow> (json \<times> string) option"
and parse_elements :: "nat \<Rightarrow> string \<Rightarrow> (json list \<times> string) option"
and parse_members :: "nat \<Rightarrow> (string \<times> json) list \<Rightarrow> string \<Rightarrow> ((string \<times> json) list \<times> string) option"
where
  "parse_value 0 s = None"
| "parse_value (Suc k) s =
     (case dropWhile is_ws s of
        [] \<Rightarrow> None
      | c # cs \<Rightarrow>
          if c = CHR ''{''
          then (if prefix ''}'' (dropWhile is_ws cs) then Some (JObj [], drop 1 (dropWhile is_ws cs))
                else map_option (\<lambda>(m, r). (JObj m, r)) (parse_members k [] cs))
          else if c = CHR ''[''
          then (if prefix '']'' (dropWhile is_ws cs) then Some (JArr [], drop 1 (dropWhile is_ws cs))
                else map_option (\<lambda>(xs, r). (JArr xs, r)) (parse_elements k cs))
          else if c = CHR 0x22 then map_option (\<lambda>(t, r). (JStr t, r)) (parse_string_chars cs)
          else if prefix ''true'' (c # cs) then Some (JBool True, drop 4 (c # cs))
          else if prefix ''false'' (c # cs) then Some (JBool False, drop 5 (c # cs))
          else if prefix ''null'' (c # cs) then Some (JNull, drop 4 (c # cs))
          else map_option (\<lambda>(n, r). (JNum n, r)) (parse_int (c # cs)))"
| "parse_elements 0 s = None"
| "parse_elements (Suc k) s =
     (case parse_value k s of
        None \<Rightarrow> None
      | Some (v, r) \<Rightarrow>
          if prefix '','' (dropWhile is_ws r)
          then map_option (\<lambda>(vs, r'). (v # vs, r')) (parse_elements k (drop 1 (dropWhile is_ws r)))
          else if prefix '']'' (dropWhile is_ws r) then Some ([v], drop 1 (dropWhile is_ws r))
          else None)"
| "parse_members 0 acc s = None"
| "parse_members (Suc k) acc s =
     (if \<not> prefix [CHR 0x22] (dropWhile is_ws s) then None
      else case parse_string_chars (drop 1 (dropWhile is_ws s)) of
        None \<Rightarrow> None
      | Some (key, r1) \<Rightarrow>
          if \<not> prefix '':'' (dropWhile is_ws r1) then None
          else (case parse_value k (drop 1 (dropWhile is_ws r1)) of
                  None \<Rightarrow> None
                | Some (v, r2) \<Rightarrow>
                    if prefix '','' (dropWhile is_ws r2)
                    then parse_members k (put key v acc) (drop 1 (dropWhile is_ws r2))
                    else if prefix ''}'' (dropWhile is_ws r2)
                    then Some (put key v acc, drop 1 (dropWhile is_ws r2))
                    else None))"

definition json_decode :: "string \<Rightarrow> json option" where
  "json_decode s =
     (case parse_value (Suc (length s)) s of
        None \<Rightarrow> None
      | Some (v, r) \<Rightarrow> if dropWhile is_ws r = [] then Some v else None)"

text \<open>
  String to number on optionally signed decimal integers with surrounding blanks; the
  blank string is zero.
\<close>

definition decimal_number :: "string \<Rightarrow> int option" where
  "decimal_number s =
     (let t = rev (dropWhile is_ws (rev (dropWhile is_ws s)));
          neg = prefix ''-'' t;
          ds = (if neg \<or> prefix ''+'' t then drop 1 t else t)
      in if t = [] then Some 0
         else if ds \<noteq> [] \<and> list_all is_digit ds
         then Some (if neg then - digits_value ds else digits_value ds)
         else None)"

definition reference_platform :: platform where
  "reference_platform =
     \<lparr> url_hostname = plain_hostname, json_parse = json_decode, string_to_number = decimal_number \<rparr>"

section \<open>The host test as the specification words it\<close>

text \<open>
  For comparison with the code: the specification strips a leading \<open>www.\<close> prefix of
  the host, where \<open>normalizeTeraBoxUrl\<close> removes the first occurrence wherever it
  stands.
\<close>

definition leading_www_stripped :: "string \<Rightarrow> string" where
  "leading_www_stripped host = (if prefix ''www.'' host then drop (length ''www.'') host else host)"

section \<open>Sample inputs\<close>

text \<open>
  The inputs at which statements are evaluated below: a share URL, a page that embeds
  one video record, a random source whose every draw is zero, a GET request, and an
  outbound request that rejects with a given error text.
\<close>

definition scenario_url :: string where
  "scenario_url = ''https://terabox.com/s/1AbcDefGh''"

definition scenario_data :: string where
  \<open>scenario_data = ''{"file_list":[{"server_filename":"movie.mp4","size":1073741824,"fs_id":12345,"category":1}],"server":"s1","sign":"xyz","timestamp":"111"}''\<close>

definition scenario_page :: string where
  "scenario_page = ''window.yunData = '' @ scenario_data @ '';''"

definition scenario_record :: json where
  "scenario_record =
     JObj [(''server_filename'', JStr ''movie.mp4''), (''size'', JNum 1073741824),
           (''fs_id'', JNum 12345), (''category'', JNum 1)]"

definition no_random :: random_source where
  "no_random k = 0"

definition scenario_thumbnails :: "(string \<times> string) list" where
  "scenario_thumbnails =
     [(''140x90'', ''https://data.1024tera.com/thumbnail/12345?fid=12345-0-0&time=111&rt=sh&sign=xyz&expires=8h&chkv=0&chkbd=0&chkpc=&dp-logid=0&dp-callid=0&size=c140_u90&quality=100&vuk=-&ft=video''),
      (''360x270'', ''https://data.1024tera.com/thumbnail/12345?fid=12345-0-0&time=111&rt=sh&sign=xyz&expires=8h&chkv=0&chkbd=0&chkpc=&dp-logid=0&dp-callid=0&size=c360_u270&quality=100&vuk=-&ft=video''),
      (''60x60'', ''https://data.1024tera.com/thumbnail/12345?fid=12345-0-0&time=111&rt=sh&sign=xyz&expires=8h&chkv=0&chkbd=0&chkpc=&dp-logid=0&dp-callid=0&size=c60_u60&quality=100&vuk=-&ft=video''),
      (''850x580'', ''https://data.1024tera.com/thumbnail/12345?fid=12345-0-0&time=111&rt=sh&sign=xyz&expires=8h&chkv=0&chkbd=0&chkpc=&dp-logid=0&dp-callid=0&size=c850_u580&quality=100&vuk=-&ft=video'')]"

definition scenario_info :: file_info where
  "scenario_info =
     \<lparr> fi_title = JStr ''movie.mp4'', fi_size = ''1 GB'',
       fi_directLink = ''https://d.1024tera.com/file/12345?fid=12345-0-0&dstime=111&rt=sh&sign=xyz&expires=8h&chkv=0&chkbd=0&chkpc=&dp-logid=0&dp-callid=0&r=0&sh=1&region=jp'',
       fi_thumbnails = Some scenario_thumbnails \<rparr>"

definition get_request :: "string \<Rightarrow> request" where
  "get_request url = \<lparr> req_method = ''GET'', query_url = Some url \<rparr>"

definition failing_fetch :: "string \<Rightarrow> string \<Rightarrow> string promise" where
  "failing_fetch msg u = Inl (JsError msg)"

text \<open>
  Further URLs and pages: a host with an inner \<open>www.\<close>, a share URL, a URL with no
  share segment, pages of each failure kind of the Page Data
  Parser, pages holding identifiers, and the status of a page without file info.
\<close>

definition inner_www_url :: string where
  "inner_www_url = ''https://terabox.www.com/x''"

definition share_url :: string where
  "share_url = ''https://terabox.com/s/ABC123''"

definition folder_url :: string where
  "folder_url = ''https://terabox.com/sharing/link''"

definition page_without_data :: string where
  "page_without_data = ''<html><body>Share not found</body></html>''"

definition page_undecodable :: string where
  "page_undecodable = ''<script>window.yunData = {oops;</script>''"

definition page_empty_list :: string where
  \<open>page_empty_list = ''<script>window.yunData = {"file_list":[]};</script>''\<close>

definition page_with_ids :: string where
  \<open>page_with_ids = ''{"shareid":42,"fs_id":999}''\<close>

definition page_with_shareid :: string where
  \<open>page_with_shareid = ''{"shareid":42,"fs_id":null}''\<close>

definition file_info_status :: string where
  "file_info_status = cross_mark @ '' Error: Could not extract file info''"



definition hostile_record :: json where
  "hostile_record = JObj [(''fs_id'', JObj [(''toString'', JNum 1)]), (''category'', JNum 1)]"



section \<open>Substring search and random draws\<close>

lemma str_includes_append: "str_includes (pre @ t @ post) t"
proof (induction pre)
  case Nil
  have "prefix t (t @ post)" by simp
  then show ?case by (cases "t @ post") auto
next
  case (Cons a pre)
  then show ?case by simp
qed

lemma str_includes_decompose: "str_includes s t \<Longrightarrow> \<exists>pre post. s = pre @ t @ post"
proof (induction s)
  case Nil
  then show ?case by simp
next
  case (Cons c cs)
  show ?case
  proof (cases "prefix t (c # cs)")
    case True
    then obtain post where "c # cs = t @ post" by (auto simp: prefix_def)
    then have "c # cs = [] @ t @ post" by simp
    then show ?thesis by blast
  next
    case False
    with Cons.prems have "str_includes cs t" by simp
    then obtain pre post where "cs = pre @ t @ post" using Cons.IH by blast
    then have "c # cs = (c # pre) @ t @ post" by simp
    then show ?thesis by blast
  qed
qed

lemma str_includes_iff: "str_includes s t = (\<exists>pre post. s = pre @ t @ post)"
  using str_includes_append str_includes_decompose by blast

text \<open>Bit lengths, rounding to 53 bits, and what it does to the floor of a draw.\<close>

lemma bit_length_zero: "bit_length 0 = 0"
  by (simp add: bit_length.simps)


lemma bit_length_upper: "n < 2 ^ bit_length n"
proof (induction n rule: bit_length.induct)
  case (1 n)
  show ?case
  proof (cases "n = 0")
    case True
    then show ?thesis by (simp add: bit_length.simps)
  next
    case False
    from "1.IH" [OF False] have "n div 2 < 2 ^ bit_length (n div 2)" .
    then have "n < 2 * 2 ^ bit_length (n div 2)" by linarith
    with False show ?thesis by (simp add: bit_length.simps [of n])
  qed
qed












section \<open>String conversion\<close>

lemma and_then_Returns: "and_then (Returns v) f = f v"
  by (simp add: and_then_def)

lemma and_then_Throws: "and_then Throws f = Throws"
  by (simp add: and_then_def)

lemma and_then_returns_iff:
  "(and_then x f = Returns y) = (\<exists>v. x = Returns v \<and> f v = Returns y)"
  by (cases x) (simp_all add: and_then_def)

lemma all_returned_throws_iff: "(all_returned ys = Throws) = (Throws \<in> set ys)"
proof (induction ys)
  case Nil
  show ?case by simp
next
  case (Cons y ys)
  show ?case
  proof (cases y)
    case Throws
    then show ?thesis by (simp add: and_then_def)
  next
    case (Returns v)
    then show ?thesis using Cons.IH
      by (cases "all_returned ys") (simp_all add: and_then_def)
  qed
qed

text \<open>
  A value has a string unless it is an object holding a key \<open>toString\<close> of its own, or
  an array with such an element at any depth.
\<close>

lemma js_string_throws_iff: "(js_string v = Throws) = (\<not> has_string v)"
proof (induction v)
  case (JArr xs)
  define parts where "parts = map (\<lambda>x. if x = JNull then Returns [] else js_string x) xs"
  have "(js_string (JArr xs) = Throws) = (all_returned parts = Throws)"
    by (cases "all_returned parts") (simp_all add: and_then_def parts_def)
  also have "\<dots> = (Throws \<in> set parts)" by (rule all_returned_throws_iff)
  also have "\<dots>
          = (Throws \<in> set (map (\<lambda>x. if x = JNull then Returns [] else js_string x) xs))"
    by (simp only: parts_def)
  also have "\<dots> = (\<exists>x \<in> set xs. js_string x = Throws)"
  proof
    assume "Throws \<in> set (map (\<lambda>x. if x = JNull then Returns [] else js_string x) xs)"
    then obtain x where x: "x \<in> set xs"
      and t: "(if x = JNull then Returns [] else js_string x) = Throws" by auto
    from t have "js_string x = Throws" by (cases "x = JNull") simp_all
    with x show "\<exists>x \<in> set xs. js_string x = Throws" by blast
  next
    assume "\<exists>x \<in> set xs. js_string x = Throws"
    then obtain x where x: "x \<in> set xs" and t: "js_string x = Throws" by blast
    from t have "x \<noteq> JNull" by auto
    with t have "(if x = JNull then Returns [] else js_string x) = Throws" by simp
    moreover from x
    have "(if x = JNull then Returns [] else js_string x)
            \<in> set (map (\<lambda>x. if x = JNull then Returns [] else js_string x) xs)"
      by (simp only: set_map) (rule imageI)
    ultimately
    show "Throws \<in> set (map (\<lambda>x. if x = JNull then Returns [] else js_string x) xs)"
      by simp
  qed
  also have "\<dots> = (\<exists>x \<in> set xs. \<not> has_string x)"
    using JArr.IH by blast
  also have "\<dots> = (\<not> has_string (JArr xs))"
    by (simp add: list_all_iff)
  finally show ?case .
qed simp_all

section \<open>The sample inputs, evaluated\<close>

lemma rand_below_zero: "rand_below 0 n = 0"
  by (simp add: rand_below_def round_to_53_def round_at_def bit_length_zero)

lemma scenario_url_nonempty: "scenario_url \<noteq> []"
  by (simp add: scenario_url_def)

lemma scenario_normalize: "normalizeTeraBoxUrl reference_platform scenario_url = Some scenario_url"
  by code_simp

lemma scenario_id: "extractFileId scenario_url scenario_page = Some ''1AbcDefGh''"
  by code_simp

lemma scenario_match: "match_yunData scenario_page = Some scenario_data"
  by code_simp

lemma scenario_decode:
  "json_decode scenario_data =
     Some (JObj [(''file_list'', JArr [scenario_record]), (''server'', JStr ''s1''),
                 (''sign'', JStr ''xyz''), (''timestamp'', JStr ''111'')])"
  by code_simp

lemma scenario_data_nonempty: "scenario_data \<noteq> []"
  by (simp add: scenario_data_def)

lemma show_12345: "show_nat 12345 = ''12345''"
  by (simp add: show_nat.simps)

lemma show_0: "show_nat 0 = ''0''"
  by (simp add: show_nat.simps)




lemma size_gb: "formatSize P (JNum 1073741824) = Returns ''1 GB''"
  by (simp add: formatSize_def and_then_def log1024.simps show_rounded_def show_nat.simps sizes_def)

lemma scenario_link:
  "createDirectLink (Some scenario_record) (JStr ''s1'') (JStr ''xyz'') (JStr ''111'') no_random =
     Returns ''https://d.1024tera.com/file/12345?fid=12345-0-0&dstime=111&rt=sh&sign=xyz&expires=8h&chkv=0&chkbd=0&chkpc=&dp-logid=0&dp-callid=0&r=0&sh=1&region=jp''"
  by (simp add: createDirectLink_def and_then_def scenario_record_def interp_def show_int_def show_12345
      show_0 no_random_def rand_below_zero)

lemma scenario_thumbs:
  "generateThumbnailUrls (Some scenario_record) (JStr ''s1'') (JStr ''xyz'') (JStr ''111'')
      (\<lambda>k. no_random (k + 4)) = Returns (Some scenario_thumbnails)"
  by (simp add: generateThumbnailUrls_def scenario_record_def baseThumbUrl_def randomParams_def
      and_then_def interp_def show_int_def show_12345 show_0 no_random_def rand_below_zero
      scenario_thumbnails_def)

lemma scenario_extract:
  "extractFileInfoFromPage reference_platform no_random scenario_page = Some scenario_info"
proof -
  have fields: "field scenario_record ''server_filename'' = Some (JStr ''movie.mp4'')"
    "field scenario_record ''size'' = Some (JNum 1073741824)"
    by (simp_all add: scenario_record_def)
  have nn: "scenario_record \<noteq> JNull" by (simp add: scenario_record_def)
  show ?thesis
    using nn
    by (simp add: extractFileInfoFromPage_def scenario_match scenario_data_nonempty
        reference_platform_def scenario_decode or_else_def scenario_link scenario_thumbs
        fields size_gb scenario_info_def)
qed

lemma scenario_result:
  "extractTeraBoxInfo reference_platform no_random (\<lambda>u. Inr scenario_page) scenario_url =
     Inr (Extracted (check_mark @ '' Success'')
            [\<lparr> info_title = JStr ''movie.mp4'', info_size = ''1 GB'',
               info_directLink = fi_directLink scenario_info,
               info_thumbnails = scenario_thumbnails \<rparr>]
            ''https://1024terabox.com/s/1AbcDefGh'')"
  by (simp add: extractTeraBoxInfo_def extractTeraBoxInfo_try_def scenario_normalize scenario_id
      scenario_extract formatResponse_def generateShortLink_def scenario_info_def)

lemma failing_fetch_result:
  "msg \<noteq> [] \<Longrightarrow>
   extractTeraBoxInfo reference_platform no_random (failing_fetch msg) scenario_url
     = Inr (StatusOnly (cross_mark @ '' Error: '' @ msg))"
  by (simp add: extractTeraBoxInfo_def extractTeraBoxInfo_try_def scenario_normalize failing_fetch_def)

lemma stack_status_no_marker:
  "\<not> str_includes (cross_mark @ '' Error: Maximum call stack size exceeded'') ''Success''"
  by (simp add: cross_mark_def)

lemma success_status_marker:
  "str_includes (cross_mark @ '' Error: Success'') ''Success''"
  by (simp add: cross_mark_def)

section \<open>Facts about the stages\<close>

lemma first_capture_nonempty: "first_capture lit cls s = Some t \<Longrightarrow> t \<noteq> []"
  by (induction s) (auto split: if_splits)

lemma extractFileId_nonempty: "extractFileId url page = Some fid \<Longrightarrow> fid \<noteq> []"
  unfolding extractFileId_def
  by (auto split: option.splits if_splits dest: first_capture_nonempty)

lemma normalize_same: "normalizeTeraBoxUrl P url = Some u \<Longrightarrow> u = url"
  unfolding normalizeTeraBoxUrl_def
  by (auto split: option.splits if_splits simp: Let_def)

section \<open>The shape of the extraction result\<close>

text \<open>
  C10. For every platform, random source, behaviour of the outbound request and input
  URL, \<open>extractTeraBoxInfo\<close> resolves to a result whose status is exactly the success
  marker (check mark, space, \<open>Success\<close>) or begins with the cross mark followed by
  \<open> Error:\<close>.
\<close>

theorem status_shape:
  "\<exists>r. extractTeraBoxInfo P rnd fetch url = Inr r
       \<and> (status r = check_mark @ '' Success'' \<or> prefix (cross_mark @ '' Error:'') (status r))"
  unfolding extractTeraBoxInfo_def extractTeraBoxInfo_try_def formatResponse_def
  by (auto split: option.splits sum.splits simp: prefix_def)

text \<open>
  C9. For every platform, random source, input URL and behaviour of the outbound request
  (it resolves to a page text or rejects with an error), \<open>extractTeraBoxInfo\<close> resolves
  and never rejects. The result has a status string, and it is either the status alone,
  the status then starting with the cross mark and \<open> Error: \<close>, or the success status
  with one info record and the short link; the latter exactly when the URL is accepted,
  the request resolves, and the identifier and the file info are both found. No failure
  carries extraction data.
\<close>

theorem extraction_never_rejects:
  "\<exists>r. extractTeraBoxInfo P rnd fetch url = Inr r
       \<and> ((\<exists>s. r = StatusOnly s \<and> prefix (cross_mark @ '' Error: '') s)
            \<or> (\<exists>info link. r = Extracted (check_mark @ '' Success'') [info] link))
       \<and> ((\<exists>info link. r = Extracted (check_mark @ '' Success'') [info] link)
            = (\<exists>page fid fileInfo. normalizeTeraBoxUrl P url = Some url \<and> fetch url = Inr page
                 \<and> extractFileId url page = Some fid
                 \<and> extractFileInfoFromPage P rnd page = Some fileInfo))"
  unfolding extractTeraBoxInfo_def extractTeraBoxInfo_try_def formatResponse_def
  by (auto split: option.splits sum.splits simp: prefix_def dest: normalize_same)

section \<open>Short-Link Generator\<close>

text \<open>
  C8. \<open>generateShortLink\<close> takes no outbound request and is a total function of its
  arguments: for every identifier (so for every non-empty one) and whatever the original
  URL, it returns \<open>https://1024terabox.com/s/\<close> followed by the identifier; for the
  identifier \<open>1AbcDefGh\<close> that is \<open>https://1024terabox.com/s/1AbcDefGh\<close>. In the
  pipeline, the short link of every successful result is this template applied to the
  non-empty identifier the Identifier Extractor found.
\<close>

theorem short_link_template:
  "generateShortLink originalUrl fileId = ''https://1024terabox.com/s/'' @ fileId
   \<and> generateShortLink originalUrl ''1AbcDefGh'' = ''https://1024terabox.com/s/1AbcDefGh''
   \<and> (extractTeraBoxInfo P rnd fetch url = Inr (Extracted st infos link) \<longrightarrow>
        (\<exists>page fid. fetch url = Inr page \<and> extractFileId url page = Some fid \<and> fid \<noteq> []
           \<and> link = ''https://1024terabox.com/s/'' @ fid))"
  unfolding extractTeraBoxInfo_def extractTeraBoxInfo_try_def formatResponse_def generateShortLink_def
  by (auto split: option.splits sum.splits dest: normalize_same extractFileId_nonempty)

theorem short_link_template_witness:
  "extractTeraBoxInfo reference_platform no_random (\<lambda>u. Inr scenario_page) scenario_url =
     Inr (Extracted (check_mark @ '' Success'')
            [\<lparr> info_title = JStr ''movie.mp4'', info_size = ''1 GB'',
               info_directLink = fi_directLink scenario_info,
               info_thumbnails = scenario_thumbnails \<rparr>]
            ''https://1024terabox.com/s/1AbcDefGh'')
   \<and> (\<exists>page fid. (Inr scenario_page :: string promise) = Inr page
          \<and> extractFileId scenario_url page = Some fid \<and> fid \<noteq> []
          \<and> ''https://1024terabox.com/s/1AbcDefGh'' = ''https://1024terabox.com/s/'' @ fid)"
  using scenario_result
    short_link_template [where P = reference_platform and rnd = no_random
      and fetch = "\<lambda>u. Inr scenario_page" and url = scenario_url
      and st = "check_mark @ '' Success''"
      and infos = "[\<lparr> info_title = JStr ''movie.mp4'', info_size = ''1 GB'',
               info_directLink = fi_directLink scenario_info,
               info_thumbnails = scenario_thumbnails \<rparr>]"
      and link = "''https://1024terabox.com/s/1AbcDefGh''"]
  by blast

section \<open>HTTP endpoint\<close>

text \<open>
  C3, as amended. For every GET request with a non-empty \<open>url\<close> parameter the endpoint
  answers with the extraction result as body and with 200 exactly when the result's
  status contains the substring \<open>Success\<close>, and 400 otherwise. It never answers 500:
  the handler's own \<open>catch\<close> answers 500 exactly when the awaited extraction rejects,
  and \<open>extractTeraBoxInfo\<close> never does, since it catches every error thrown while it
  runs and returns it as a status.
\<close>

theorem endpoint_status_codes:
  assumes "req_method req = ''GET''" and "query_url req = Some url" and "url \<noteq> []"
  shows "(\<exists>r. extractTeraBoxInfo P rnd fetch url = Inr r
            \<and> resp_body (api_extract P rnd fetch req) = r
            \<and> resp_code (api_extract P rnd fetch req)
                = (if str_includes (status r) ''Success'' then 200 else 400))
         \<and> resp_code (api_extract P rnd fetch req) \<noteq> 500
         \<and> (resp_code (handler extract req) = 500) = (\<exists>e. extract url = Inl e)"
proof -
  obtain r where r: "extractTeraBoxInfo P rnd fetch url = Inr r"
    by (cases "extractTeraBoxInfo_try P rnd fetch url") (auto simp: extractTeraBoxInfo_def)
  have a: "resp_body (api_extract P rnd fetch req) = r"
    and b: "resp_code (api_extract P rnd fetch req)
              = (if str_includes (status r) ''Success'' then 200 else 400)"
    using assms r by (simp_all add: api_extract_def handler_def)
  have c: "(resp_code (handler extract req) = 500) = (\<exists>e. extract url = Inl e)"
    using assms by (cases "extract url") (simp_all add: handler_def)
  from r a b c show ?thesis by simp
qed

theorem endpoint_status_codes_witness:
  "req_method (get_request scenario_url) = ''GET''
   \<and> query_url (get_request scenario_url) = Some scenario_url
   \<and> scenario_url \<noteq> []
   \<and> (\<exists>r. extractTeraBoxInfo reference_platform no_random
              (failing_fetch ''Maximum call stack size exceeded'') scenario_url = Inr r
            \<and> resp_body (api_extract reference_platform no_random
                 (failing_fetch ''Maximum call stack size exceeded'') (get_request scenario_url)) = r
            \<and> resp_code (api_extract reference_platform no_random
                 (failing_fetch ''Maximum call stack size exceeded'') (get_request scenario_url))
                = (if str_includes (status r) ''Success'' then 200 else 400))
   \<and> resp_code (api_extract reference_platform no_random
        (failing_fetch ''Maximum call stack size exceeded'') (get_request scenario_url)) \<noteq> 500"
proof -
  have h1: "req_method (get_request scenario_url) = ''GET''"
    and h2: "query_url (get_request scenario_url) = Some scenario_url"
    by (simp_all add: get_request_def)
  from endpoint_status_codes [OF h1 h2 scenario_url_nonempty, of reference_platform no_random
      "failing_fetch ''Maximum call stack size exceeded''" "\<lambda>u. Inr (StatusOnly [])"]
  show ?thesis using h1 h2 scenario_url_nonempty by blast
qed

text \<open>
  C3 as stated fails: an unexpected error thrown during the extraction (here a stack
  overflow raised inside the awaited request) is answered with 400, not 500; and a
  failed request whose error text contains \<open>Success\<close> is answered with 200.
\<close>

theorem endpoint_error_is_400:
  "resp_code (api_extract reference_platform no_random
       (failing_fetch ''Maximum call stack size exceeded'') (get_request scenario_url)) = 400
   \<and> resp_code (api_extract reference_platform no_random
       (failing_fetch ''Success'') (get_request scenario_url)) = 200"
  using stack_status_no_marker success_status_marker
  by (simp add: api_extract_def handler_def get_request_def scenario_url_nonempty failing_fetch_result)

section \<open>Further samples, evaluated\<close>

lemma page_without_data_match: "match_yunData page_without_data = None"
  by code_simp

lemma page_undecodable_match: "match_yunData page_undecodable = Some ''{oops''"
  by code_simp

lemma oops_decode: "json_decode ''{oops'' = None"
  by code_simp

lemma page_empty_list_match: \<open>match_yunData page_empty_list = Some ''{"file_list":[]}''\<close>
  by code_simp

lemma empty_list_decode: \<open>json_decode ''{"file_list":[]}'' = Some (JObj [(''file_list'', JArr [])])\<close>
  by code_simp

lemma sample_pages_id:
  "extractFileId scenario_url page_without_data = Some ''1AbcDefGh''"
  "extractFileId scenario_url page_undecodable = Some ''1AbcDefGh''"
  "extractFileId scenario_url page_empty_list = Some ''1AbcDefGh''"
  by code_simp+

lemma inner_www_hostname: "url_hostname reference_platform inner_www_url = Some ''terabox.www.com''"
  by code_simp

lemma inner_www_spec_rejects:
  "\<not> list_ex (str_includes (leading_www_stripped ''terabox.www.com'')) validDomains"
  by code_simp

lemma inner_www_normalize: "normalizeTeraBoxUrl reference_platform inner_www_url = Some inner_www_url"
  by code_simp


lemma share_url_capture: "first_capture ''/s/'' is_token_char share_url = Some ''ABC123''"
  by code_simp

lemma folder_url_capture: "first_capture ''/s/'' is_token_char folder_url = None"
  by code_simp

lemma page_with_ids_capture: \<open>first_capture ''"fs_id":'' is_digit page_with_ids = Some ''999''\<close>
  by code_simp

lemma page_with_shareid_capture:
  \<open>first_capture ''"fs_id":'' is_digit page_with_shareid = None\<close>
  \<open>first_capture ''"shareid":'' is_digit page_with_shareid = Some ''42''\<close>
  by code_simp+

lemma share_url_parts:
  "share_url = ''https://terabox.com'' @ ''/s/ABC123'' @ []"
  "\<not> str_includes (''https://terabox.com'' @ ''/s'') ''/s/''"
  by (simp_all add: share_url_def)


lemma scenario_category: "field scenario_record ''category'' = Some (JNum 1)"
  by (simp add: scenario_record_def)


lemma hostile_category: "field hostile_record ''category'' = Some (JNum 1)"
  by (simp add: hostile_record_def)

lemma hostile_fs_id: "interp (field hostile_record ''fs_id'') = Throws"
  by (simp add: hostile_record_def interp_def)





section \<open>Page Data Parser\<close>

lemma match_yunData_absent:
  "\<not> str_includes page ''window.yunData = '' \<Longrightarrow> match_yunData page = None"
  by (induction page) auto

text \<open>
  C1, as amended. The Page Data Parser has one failure result, not three: it returns
  \<open>null\<close> alike when the page holds no \<open>window.yunData = ...;\<close> assignment, when the
  captured text fails to decode, and when the decoded data's \<open>file_list\<close> is absent or
  empty. For a URL that is accepted and yields an identifier, \<open>extractTeraBoxInfo\<close>
  surfaces each of the three as the same status, the cross mark followed by
  \<open> Error: Could not extract file info\<close>.
\<close>

theorem parser_failures_alike:
  assumes "match_yunData page = None
           \<or> (\<exists>cap. match_yunData page = Some cap \<and> json_parse P cap = None)
           \<or> (\<exists>cap yunData. match_yunData page = Some cap \<and> json_parse P cap = Some yunData
                 \<and> (field yunData ''file_list'' = None \<or> field yunData ''file_list'' = Some (JArr [])))"
  shows "extractFileInfoFromPage P rnd page = None
         \<and> (normalizeTeraBoxUrl P url = Some url \<and> fetch url = Inr page
               \<and> extractFileId url page = Some fid
             \<longrightarrow> extractTeraBoxInfo P rnd fetch url = Inr (StatusOnly file_info_status))"
proof -
  have none: "extractFileInfoFromPage P rnd page = None"
    using assms unfolding extractFileInfoFromPage_def
    by (auto simp: or_else_def Let_def split: option.splits json.splits)
  then show ?thesis
    by (simp add: extractTeraBoxInfo_def extractTeraBoxInfo_try_def file_info_status_def)
qed

theorem parser_failures_alike_witness:
  "(\<exists>cap. match_yunData page_undecodable = Some cap \<and> json_parse reference_platform cap = None)
   \<and> normalizeTeraBoxUrl reference_platform scenario_url = Some scenario_url
   \<and> extractFileId scenario_url page_undecodable = Some ''1AbcDefGh''
   \<and> extractFileInfoFromPage reference_platform no_random page_undecodable = None
   \<and> extractTeraBoxInfo reference_platform no_random (\<lambda>u. Inr page_undecodable) scenario_url
        = Inr (StatusOnly file_info_status)"
proof -
  have h: "\<exists>cap. match_yunData page_undecodable = Some cap \<and> json_parse reference_platform cap = None"
    by (simp add: page_undecodable_match reference_platform_def oops_decode)
  then have "match_yunData page_undecodable = None
      \<or> (\<exists>cap. match_yunData page_undecodable = Some cap \<and> json_parse reference_platform cap = None)
      \<or> (\<exists>cap yunData. match_yunData page_undecodable = Some cap
            \<and> json_parse reference_platform cap = Some yunData
            \<and> (field yunData ''file_list'' = None \<or> field yunData ''file_list'' = Some (JArr [])))"
    by blast
  from parser_failures_alike [OF this, of no_random scenario_url "\<lambda>u. Inr page_undecodable" "''1AbcDefGh''"]
  show ?thesis using h scenario_normalize sample_pages_id(2) by simp
qed

text \<open>
  C1 as stated fails: a page without the assignment, a page whose captured text does not
  decode and a page whose \<open>file_list\<close> is empty give the same parser result and the
  same result of \<open>extractTeraBoxInfo\<close>; nothing in it tells the three apart.
\<close>

theorem parser_failures_indistinguishable:
  "match_yunData page_without_data = None
   \<and> (match_yunData page_undecodable = Some ''{oops'' \<and> json_parse reference_platform ''{oops'' = None)
   \<and> (match_yunData page_empty_list = Some ''{\"file_list\":[]}''
        \<and> json_parse reference_platform ''{\"file_list\":[]}'' = Some (JObj [(''file_list'', JArr [])]))
   \<and> extractFileInfoFromPage reference_platform no_random page_without_data
        = extractFileInfoFromPage reference_platform no_random page_undecodable
   \<and> extractFileInfoFromPage reference_platform no_random page_undecodable
        = extractFileInfoFromPage reference_platform no_random page_empty_list
   \<and> extractTeraBoxInfo reference_platform no_random (\<lambda>u. Inr page_without_data) scenario_url
        = Inr (StatusOnly file_info_status)
   \<and> extractTeraBoxInfo reference_platform no_random (\<lambda>u. Inr page_undecodable) scenario_url
        = Inr (StatusOnly file_info_status)
   \<and> extractTeraBoxInfo reference_platform no_random (\<lambda>u. Inr page_empty_list) scenario_url
        = Inr (StatusOnly file_info_status)"
  by (simp add: page_without_data_match page_undecodable_match page_empty_list_match
      reference_platform_def oops_decode empty_list_decode extractFileInfoFromPage_def or_else_def
      extractTeraBoxInfo_def extractTeraBoxInfo_try_def scenario_normalize [unfolded reference_platform_def]
      sample_pages_id file_info_status_def)

section \<open>URL Normalizer\<close>

lemma replace_first_here:
  "prefix pat (a # s) \<Longrightarrow> replace_first pat rep (a # s) = rep @ drop (length pat) (a # s)"
  by simp

lemma replace_first_at_head:
  "prefix pat s \<Longrightarrow> s \<noteq> [] \<Longrightarrow> replace_first pat rep s = rep @ drop (length pat) s"
  by (cases s) simp_all

lemma replace_first_later:
  "\<not> prefix pat (a # s) \<Longrightarrow> replace_first pat rep (a # s) = a # replace_first pat rep s"
  by simp

lemma replace_first_keeps_prefix:
  "prefix d s \<Longrightarrow> pat \<noteq> [] \<Longrightarrow> hd pat \<notin> set d \<Longrightarrow> prefix d (replace_first pat [] s)"
proof (induction s arbitrary: d)
  case Nil
  then show ?case by simp
next
  case (Cons a s)
  show ?case
  proof (cases d)
    case Nil
    then show ?thesis by simp
  next
    case d: (Cons b d')
    with Cons.prems have ba: "b = a" and p: "prefix d' s" and nh: "hd pat \<noteq> a"
      and nd: "hd pat \<notin> set d'" by auto
    from nh Cons.prems(2) have "\<not> prefix pat (a # s)" by (cases pat) auto
    then have "replace_first pat [] (a # s) = a # replace_first pat [] s"
      by (rule replace_first_later)
    moreover have "prefix d' (replace_first pat [] s)"
      using p Cons.prems(2) nd by (rule Cons.IH)
    ultimately show ?thesis using d ba by simp
  qed
qed

lemma str_includes_empty: "str_includes s []"
  by (cases s) simp_all

lemma str_includes_skip:
  "c \<notin> set p \<Longrightarrow> str_includes (p @ rest) (c # d) \<Longrightarrow> str_includes rest (c # d)"
  by (induction p) auto

lemma replace_first_keeps_includes:
  assumes "pat \<noteq> []" and "hd pat \<notin> set d" and "d = [] \<or> hd d \<notin> set pat"
  shows "str_includes s d \<Longrightarrow> str_includes (replace_first pat [] s) d"
proof (induction s)
  case Nil
  then show ?case using assms(1) by simp
next
  case (Cons a s)
  show ?case
  proof (cases "prefix pat (a # s)")
    case True
    then obtain rest where rest: "a # s = pat @ rest" by (auto simp: prefix_def)
    have rep: "replace_first pat [] (a # s) = rest"
      using replace_first_here [OF True, of "[]"] rest by simp
    show ?thesis
    proof (cases d)
      case Nil
      then show ?thesis by (simp only: str_includes_empty)
    next
      case d: (Cons c d')
      with assms(3) have "c \<notin> set pat" by simp
      moreover from Cons.prems rest d have "str_includes (pat @ rest) (c # d')" by simp
      ultimately have "str_includes rest (c # d')" by (rule str_includes_skip)
      with rep d show ?thesis by simp
    qed
  next
    case False
    then have rep: "replace_first pat [] (a # s) = a # replace_first pat [] s"
      by (rule replace_first_later)
    from Cons.prems have "prefix d (a # s) \<or> str_includes s d" by simp
    then show ?thesis
    proof
      assume "prefix d (a # s)"
      then have "prefix d (replace_first pat [] (a # s))"
        using assms(1,2) by (rule replace_first_keeps_prefix)
      with rep show ?thesis by simp
    next
      assume "str_includes s d"
      then have "str_includes (replace_first pat [] s) d" by (rule Cons.IH)
      with rep show ?thesis by simp
    qed
  qed
qed

lemma spec_host_test_implies:
  assumes "list_ex (str_includes (leading_www_stripped host)) validDomains"
  shows "list_ex (str_includes (replace_first ''www.'' [] host)) validDomains"
proof (cases "prefix ''www.'' host")
  case True
  then have ne: "host \<noteq> []" by auto
  have "replace_first ''www.'' [] host = [] @ drop (length ''www.'') host"
    using True ne by (rule replace_first_at_head)
  also have "\<dots> = leading_www_stripped host"
    using True by (simp only: leading_www_stripped_def if_True append_Nil)
  finally have "replace_first ''www.'' [] host = leading_www_stripped host" .
  with assms show ?thesis by simp
next
  case False
  then have same: "leading_www_stripped host = host" by (simp add: leading_www_stripped_def)
  from assms same obtain d where d: "d \<in> set validDomains" and inc: "str_includes host d"
    by (auto simp: list_ex_iff)
  from d have "hd ''www.'' \<notin> set d" "d = [] \<or> hd d \<notin> set ''www.''"
    by (auto simp: validDomains_def)
  with inc have "str_includes (replace_first ''www.'' [] host) d"
    using replace_first_keeps_includes [of "''www.''" d host] by simp
  with d show ?thesis by (auto simp: list_ex_iff)
qed

text \<open>
  What the normalizer computes: it fails exactly for the empty string, a string that
  does not parse, and a host that, with its first \<open>www.\<close> removed, contains no
  allow-listed substring; it returns an accepted input unchanged; and it accepts every
  non-empty URL that parses and whose host, with a leading \<open>www.\<close> stripped, contains
  an allow-listed substring.
\<close>

lemma normalize_fails_iff:
  "(normalizeTeraBoxUrl P url = None)
     = (url = [] \<or> url_hostname P url = None
        \<or> (\<exists>host. url_hostname P url = Some host
              \<and> \<not> list_ex (str_includes (replace_first ''www.'' [] host)) validDomains))
   \<and> (normalizeTeraBoxUrl P url = None \<or> normalizeTeraBoxUrl P url = Some url)
   \<and> (url \<noteq> [] \<and> url_hostname P url = Some h
        \<and> list_ex (str_includes (leading_www_stripped h)) validDomains
      \<longrightarrow> normalizeTeraBoxUrl P url = Some url)"
proof -
  have iff: "(normalizeTeraBoxUrl P url = None)
     = (url = [] \<or> url_hostname P url = None
        \<or> (\<exists>host. url_hostname P url = Some host
              \<and> \<not> list_ex (str_includes (replace_first ''www.'' [] host)) validDomains))"
    unfolding normalizeTeraBoxUrl_def by (auto simp: Let_def split: option.splits)
  have same: "normalizeTeraBoxUrl P url = None \<or> normalizeTeraBoxUrl P url = Some url"
    unfolding normalizeTeraBoxUrl_def by (auto simp: Let_def split: option.splits)
  have spec: "normalizeTeraBoxUrl P url = Some url"
    if "url \<noteq> []" and "url_hostname P url = Some h"
      and "list_ex (str_includes (leading_www_stripped h)) validDomains"
  proof -
    from that(3) have "list_ex (str_includes (replace_first ''www.'' [] h)) validDomains"
      by (rule spec_host_test_implies)
    with that(1,2) iff have "normalizeTeraBoxUrl P url \<noteq> None" by simp
    with same show ?thesis by blast
  qed
  from iff same spec show ?thesis by blast
qed

text \<open>
  C4. The claim does not hold of the code at \<open>https://terabox.www.com/x\<close>. The URL
  parses, and its host \<open>terabox.www.com\<close> has no leading \<open>www.\<close> and contains none of
  the allow-listed substrings, so by the claim the normalizer fails. The code accepts the
  URL: \<open>hostname.replace('www.', '')\<close> is not anchored at the start of the host, removes
  the inner \<open>www.\<close> and leaves \<open>terabox.com\<close>.
\<close>

theorem inner_www_accepted:
  "url_hostname reference_platform inner_www_url = Some ''terabox.www.com''
   \<and> \<not> list_ex (str_includes (leading_www_stripped ''terabox.www.com'')) validDomains
   \<and> normalizeTeraBoxUrl reference_platform inner_www_url = Some inner_www_url"
  using inner_www_hostname inner_www_spec_rejects inner_www_normalize by simp

section \<open>Link Synthesizer\<close>












section \<open>Size formatting\<close>

lemma log1024_bounds: "0 < n \<Longrightarrow> 1024 ^ log1024 n \<le> n \<and> n < 1024 * 1024 ^ log1024 n"
proof (induction n rule: log1024.induct)
  case (1 n)
  show ?case
  proof (cases "n < 1024")
    case True
    with "1.prems" show ?thesis by (simp add: log1024.simps)
  next
    case False
    then have pos: "0 < n div 1024" by (simp add: div_greater_zero_iff)
    from "1.IH" [OF False pos]
    have lo: "1024 ^ log1024 (n div 1024) \<le> n div 1024"
      and hi: "n div 1024 < 1024 * 1024 ^ log1024 (n div 1024)" by simp_all
    have eq: "log1024 n = Suc (log1024 (n div 1024))"
      using False by (simp add: log1024.simps)
    from lo have "1024 * 1024 ^ log1024 (n div 1024) \<le> 1024 * (n div 1024)" by simp
    also have "\<dots> \<le> n" by simp
    finally have a: "1024 ^ log1024 n \<le> n" by (simp add: eq)
    from hi have "n < 1024 * (1024 * 1024 ^ log1024 (n div 1024))"
      by (simp add: less_mult_imp_div_less mult.commute)
    then have b: "n < 1024 * 1024 ^ log1024 n" by (simp add: eq)
    from a b show ?thesis by simp
  qed
qed

lemma log1024_beyond: "1024 ^ 5 \<le> n \<Longrightarrow> 5 \<le> log1024 n"
proof (rule ccontr)
  assume big: "1024 ^ 5 \<le> n" and "\<not> 5 \<le> log1024 n"
  then have "Suc (log1024 n) \<le> 5" by simp
  then have "(1024::nat) ^ Suc (log1024 n) \<le> 1024 ^ 5"
    by (intro power_increasing) simp_all
  moreover have "n < 1024 ^ Suc (log1024 n)"
    using log1024_bounds [of n] big by simp
  ultimately show False using big by simp
qed

lemma formatSize_positive:
  "0 < n \<Longrightarrow>
   formatSize P (JNum (int n))
     = Returns (show_rounded n (1024 ^ log1024 n) @ '' ''
         @ (if log1024 n < 5 then sizes ! log1024 n else ''undefined''))"
  by (simp add: formatSize_def and_then_def sizes_def Let_def)

lemma formatSize_beyond_units:
  "1024 ^ 5 \<le> n \<Longrightarrow>
   formatSize P (JNum (int n)) = Returns (show_rounded n (1024 ^ log1024 n) @ '' undefined'')"
  using log1024_beyond [of n] by (simp add: formatSize_positive)

text \<open>
  C2. \<open>formatSize\<close> at the claim's inputs, at one tebibyte, and at \<open>2^51\<close> bytes, where
  the unit index is 5: the index is not clamped to the five units, and the unit prints
  as \<open>undefined\<close>. By \<open>formatSize_beyond_units\<close> this is so from \<open>1024^5\<close> bytes on.
\<close>

theorem formatSize_samples:
  "formatSize P (JNum 0) = Returns ''0 Bytes''
   \<and> formatSize P (JNum 1024) = Returns ''1 KB''
   \<and> formatSize P (JNum 1536) = Returns ''1.5 KB''
   \<and> formatSize P (JNum 1099511627776) = Returns ''1 TB''
   \<and> formatSize P (JNum 2251799813685248) = Returns ''2 undefined''"
  by (simp add: formatSize_def and_then_def log1024.simps show_rounded_def show_nat.simps sizes_def)

section \<open>Identifier Extractor\<close>

text \<open>
  What \<open>first_capture\<close> computes: no result exactly when the literal is nowhere followed
  by a character of the class; otherwise the longest run of class characters after the
  leftmost such place.
\<close>

lemma capture_here_iff:
  "(prefix lit s \<and> takeWhile cls (drop (length lit) s) \<noteq> [])
     = (\<exists>c post. s = lit @ c # post \<and> cls c)"
proof
  assume h: "prefix lit s \<and> takeWhile cls (drop (length lit) s) \<noteq> []"
  then obtain r where r: "s = lit @ r" by (auto simp: prefix_def)
  with h have "takeWhile cls r \<noteq> []" by simp
  then obtain c post where "r = c # post" "cls c"
    by (cases r) (auto split: if_splits)
  with r show "\<exists>c post. s = lit @ c # post \<and> cls c" by blast
next
  assume "\<exists>c post. s = lit @ c # post \<and> cls c"
  then obtain c post where e: "s = lit @ c # post" and c: "cls c" by blast
  then show "prefix lit s \<and> takeWhile cls (drop (length lit) s) \<noteq> []" by simp
qed

lemma first_capture_None_iff:
  "(first_capture lit cls s = None) = (\<not> (\<exists>pre c post. s = pre @ lit @ c # post \<and> cls c))"
proof (induction s)
  case Nil
  show ?case by simp
next
  case (Cons a s)
  let ?here = "prefix lit (a # s) \<and> takeWhile cls (drop (length lit) (a # s)) \<noteq> []"
  have here_iff: "?here = (\<exists>c post. a # s = lit @ c # post \<and> cls c)"
  proof
    assume h: ?here
    then obtain r where r: "a # s = lit @ r" by (auto simp: prefix_def)
    with h have "takeWhile cls r \<noteq> []" by simp
    then obtain c post where "r = c # post" "cls c"
      by (cases r) (auto split: if_splits)
    with r show "\<exists>c post. a # s = lit @ c # post \<and> cls c" by blast
  next
    assume "\<exists>c post. a # s = lit @ c # post \<and> cls c"
    then obtain c post where e: "a # s = lit @ c # post" and c: "cls c" by blast
    have "prefix lit (lit @ c # post)" by simp
    moreover have "takeWhile cls (drop (length lit) (lit @ c # post)) \<noteq> []" using c by simp
    ultimately show ?here using e by simp
  qed
  have later_iff: "(\<exists>pre c post. s = pre @ lit @ c # post \<and> cls c)
                   = (\<exists>pre c post. a # s = (a # pre) @ lit @ c # post \<and> cls c)"
    by simp
  have split: "(\<exists>pre c post. a # s = pre @ lit @ c # post \<and> cls c)
               = ((\<exists>c post. a # s = lit @ c # post \<and> cls c)
                  \<or> (\<exists>pre c post. s = pre @ lit @ c # post \<and> cls c))"
  proof
    assume "\<exists>pre c post. a # s = pre @ lit @ c # post \<and> cls c"
    then obtain pre c post where e: "a # s = pre @ lit @ c # post" and c: "cls c" by blast
    show "(\<exists>c post. a # s = lit @ c # post \<and> cls c)
          \<or> (\<exists>pre c post. s = pre @ lit @ c # post \<and> cls c)"
    proof (cases pre)
      case Nil
      with e c show ?thesis by auto
    next
      case (Cons b pre')
      with e have "s = pre' @ lit @ c # post" by simp
      with c show ?thesis by blast
    qed
  next
    assume "(\<exists>c post. a # s = lit @ c # post \<and> cls c)
            \<or> (\<exists>pre c post. s = pre @ lit @ c # post \<and> cls c)"
    then show "\<exists>pre c post. a # s = pre @ lit @ c # post \<and> cls c"
    proof
      assume "\<exists>c post. a # s = lit @ c # post \<and> cls c"
      then obtain c post where "a # s = [] @ lit @ c # post" "cls c" by auto
      then show ?thesis by blast
    next
      assume "\<exists>pre c post. s = pre @ lit @ c # post \<and> cls c"
      then obtain pre c post where "a # s = (a # pre) @ lit @ c # post" "cls c" by auto
      then show ?thesis by blast
    qed
  qed
  show ?case
  proof (cases ?here)
    case True
    then have "first_capture lit cls (a # s) \<noteq> None" by simp
    moreover from True here_iff split have "\<exists>pre c post. a # s = pre @ lit @ c # post \<and> cls c"
      by blast
    ultimately show ?thesis by blast
  next
    case False
    then have "first_capture lit cls (a # s) = first_capture lit cls s" by auto
    with False here_iff split Cons.IH show ?thesis by simp
  qed
qed

lemma first_capture_leftmost:
  "first_capture lit cls s = Some t \<Longrightarrow>
   \<exists>pre post. s = pre @ lit @ t @ post \<and> t \<noteq> [] \<and> list_all cls t
      \<and> (post = [] \<or> \<not> cls (hd post))
      \<and> (\<forall>pre' c post'. s = pre' @ lit @ c # post' \<and> cls c \<longrightarrow> length pre \<le> length pre')"
proof (induction s)
  case Nil
  then show ?case by simp
next
  case (Cons a s)
  show ?case
  proof (cases "prefix lit (a # s) \<and> takeWhile cls (drop (length lit) (a # s)) \<noteq> []")
    case True
    define r where "r = drop (length lit) (a # s)"
    from True have r: "a # s = lit @ r" by (auto simp: prefix_def r_def)
    from True Cons.prems have t: "t = takeWhile cls r" by (simp add: r_def)
    from True have ne: "takeWhile cls r \<noteq> []" by (simp add: r_def)
    have "a # s = [] @ lit @ takeWhile cls r @ dropWhile cls r" using r by simp
    moreover have "list_all cls (takeWhile cls r)"
      by (simp add: list_all_iff) (meson set_takeWhileD)
    moreover have "dropWhile cls r = [] \<or> \<not> cls (hd (dropWhile cls r))"
      using hd_dropWhile [of cls r] by blast
    moreover have "\<forall>pre' c post'. a # s = pre' @ lit @ c # post' \<and> cls c
                      \<longrightarrow> length ([] :: string) \<le> length pre'" by simp
    ultimately show ?thesis using ne unfolding t by blast
  next
    case False
    with Cons.prems have "first_capture lit cls s = Some t" by (auto split: if_splits)
    from Cons.IH [OF this] obtain pre post where
      s: "s = pre @ lit @ t @ post" and ne: "t \<noteq> []" and all: "list_all cls t"
      and stop: "post = [] \<or> \<not> cls (hd post)"
      and least: "\<forall>pre' c post'. s = pre' @ lit @ c # post' \<and> cls c \<longrightarrow> length pre \<le> length pre'"
      by blast
    have "length (a # pre) \<le> length pre'" if d: "a # s = pre' @ lit @ c # post'" and c: "cls c"
      for pre' c post'
    proof (cases pre')
      case Nil
      with d c have "\<exists>c post. a # s = lit @ c # post \<and> cls c" by auto
      with False capture_here_iff [of lit "a # s" cls] show ?thesis by blast
    next
      case (Cons b p)
      with d have "s = p @ lit @ c # post'" by simp
      with least c have "length pre \<le> length p" by blast
      with Cons show ?thesis by simp
    qed
    moreover have "a # s = (a # pre) @ lit @ t @ post" using s by simp
    ultimately show ?thesis using ne all stop by blast
  qed
qed

lemma first_capture_not_included:
  "\<not> str_includes s lit \<Longrightarrow> first_capture lit cls s = None"
proof (rule ccontr)
  assume n: "\<not> str_includes s lit" and some: "first_capture lit cls s \<noteq> None"
  from some have "\<exists>pre c post. s = pre @ lit @ c # post \<and> cls c"
    by (simp add: first_capture_None_iff)
  then obtain pre c post where "s = pre @ lit @ c # post" by blast
  then have "str_includes s lit" using str_includes_append [of pre lit "c # post"] by simp
  with n show False by simp
qed

lemma prefix_within:
  "prefix xs (ys @ zs) \<Longrightarrow> length xs \<le> length ys \<Longrightarrow> prefix xs ys"
  by (rule prefix_length_prefix [of xs "ys @ zs" ys]) simp_all

lemma first_capture_at:
  assumes "lit \<noteq> []" and "\<not> str_includes (pre @ butlast lit) lit"
    and "takeWhile cls rest \<noteq> []"
  shows "first_capture lit cls (pre @ lit @ rest) = Some (takeWhile cls rest)"
  using assms(2)
proof (induction pre)
  case Nil
  from assms(1) obtain a l where "lit = a # l" by (cases lit) auto
  then have "lit @ rest = a # (l @ rest)" by simp
  moreover have "prefix lit (lit @ rest)" by simp
  moreover have "drop (length lit) (lit @ rest) = rest" by simp
  ultimately show ?case using assms(3)
    by (metis append_Nil first_capture.simps(2))
next
  case (Cons a pre)
  from Cons.prems have np: "\<not> prefix lit (a # pre @ butlast lit)"
    and ni: "\<not> str_includes (pre @ butlast lit) lit" by simp_all
  have "a # pre @ lit @ rest = (a # pre @ butlast lit) @ (last lit # rest)"
    using assms(1) by (metis append.assoc append_Cons append_butlast_last_id append_Nil)
  moreover have "length lit \<le> length (a # pre @ butlast lit)" by simp
  ultimately have "\<not> prefix lit (a # pre @ lit @ rest)"
    using np prefix_within by metis
  then have "first_capture lit cls ((a # pre) @ lit @ rest) = first_capture lit cls (pre @ lit @ rest)"
    by simp
  with Cons.IH [OF ni] show ?case by simp
qed

lemma extractFileId_unguarded:
  \<open>extractFileId url page =
     (case first_capture ''/s/'' is_token_char url of
        Some token \<Rightarrow> Some token
      | None \<Rightarrow> (case first_capture ''"fs_id":'' is_digit page of
                   Some fid \<Rightarrow> Some fid
                 | None \<Rightarrow> first_capture ''"shareid":'' is_digit page))\<close>
  unfolding extractFileId_def
  by (cases "str_includes url ''/s/''") (simp_all add: first_capture_not_included)

text \<open>
  C6. The Identifier Extractor returns the token of the first \<open>/s/<token>\<close> match in
  the URL whatever the page holds; without such a match, the digits of the first
  \<open>"fs_id":<digits>\<close> match in the page; without that, the digits of the first
  \<open>"shareid":<digits>\<close> match; and it fails exactly when none of the three patterns
  matches. For a URL whose first \<open>/s/\<close> segment is \<open>/s/ABC123\<close>, the token ending
  there, it returns \<open>ABC123\<close> for every page, one containing \<open>"fs_id":999\<close> included.
\<close>

theorem identifier_precedence:
  \<open>(first_capture ''/s/'' is_token_char url = Some token \<longrightarrow> extractFileId url page = Some token)
   \<and> (first_capture ''/s/'' is_token_char url = None
        \<and> first_capture ''"fs_id":'' is_digit page = Some fid
      \<longrightarrow> extractFileId url page = Some fid)
   \<and> (first_capture ''/s/'' is_token_char url = None
        \<and> first_capture ''"fs_id":'' is_digit page = None
      \<longrightarrow> extractFileId url page = first_capture ''"shareid":'' is_digit page)
   \<and> (extractFileId url page = None)
       = (first_capture ''/s/'' is_token_char url = None
          \<and> first_capture ''"fs_id":'' is_digit page = None
          \<and> first_capture ''"shareid":'' is_digit page = None)
   \<and> (\<not> str_includes (before @ ''/s'') ''/s/'' \<and> (after = [] \<or> \<not> is_token_char (hd after))
      \<longrightarrow> extractFileId (before @ ''/s/ABC123'' @ after) page = Some ''ABC123'')\<close>
proof -
  have last: "extractFileId (before @ ''/s/ABC123'' @ after) page = Some ''ABC123''"
    if nb: "\<not> str_includes (before @ ''/s'') ''/s/''"
      and na: "after = [] \<or> \<not> is_token_char (hd after)"
  proof -
    have tw: "takeWhile is_token_char (''ABC123'' @ after) = ''ABC123''"
      using na by (cases after) (simp_all add: is_token_char_def is_digit_def)
    have "first_capture ''/s/'' is_token_char (before @ ''/s/'' @ (''ABC123'' @ after))
            = Some (takeWhile is_token_char (''ABC123'' @ after))"
      by (rule first_capture_at) (use nb tw in simp_all)
    then have "first_capture ''/s/'' is_token_char (before @ ''/s/ABC123'' @ after) = Some ''ABC123''"
      using tw by simp
    then show ?thesis by (simp add: extractFileId_unguarded)
  qed
  show ?thesis
    using last by (auto simp: extractFileId_unguarded split: option.splits)
qed

theorem identifier_precedence_witness:
  \<open>first_capture ''/s/'' is_token_char share_url = Some ''ABC123''
   \<and> first_capture ''"fs_id":'' is_digit page_with_ids = Some ''999''
   \<and> extractFileId share_url page_with_ids = Some ''ABC123''
   \<and> first_capture ''/s/'' is_token_char folder_url = None
   \<and> extractFileId folder_url page_with_ids = Some ''999''
   \<and> first_capture ''"fs_id":'' is_digit page_with_shareid = None
   \<and> extractFileId folder_url page_with_shareid = Some ''42''
   \<and> \<not> str_includes (''https://terabox.com'' @ ''/s'') ''/s/''
   \<and> extractFileId (''https://terabox.com'' @ ''/s/ABC123'' @ []) page_with_ids = Some ''ABC123''\<close>
proof -
  have a: "extractFileId share_url page_with_ids = Some ''ABC123''"
    using identifier_precedence [where url = share_url and token = "''ABC123''" and page = page_with_ids]
      share_url_capture by blast
  have b: "extractFileId folder_url page_with_ids = Some ''999''"
    using identifier_precedence [where url = folder_url and fid = "''999''" and page = page_with_ids]
      folder_url_capture page_with_ids_capture by blast
  have c: "extractFileId folder_url page_with_shareid = Some ''42''"
    using identifier_precedence [where url = folder_url and page = page_with_shareid]
      folder_url_capture page_with_shareid_capture by metis
  have d: "extractFileId (''https://terabox.com'' @ ''/s/ABC123'' @ []) page_with_ids = Some ''ABC123''"
    using identifier_precedence [where before = "''https://terabox.com''" and after = "[]"
        and page = page_with_ids] share_url_parts(2) by blast
  from a b c d share_url_capture folder_url_capture page_with_ids_capture page_with_shareid_capture(1)
    share_url_parts(2)
  show ?thesis by blast
qed

end
